theory Spec2Isabelle
  imports Complex_Main
begin

section \<open>Data model of the batching occlusion renderer\<close>

text \<open>
  The renderer (class \<open>BatchingOcclusionRenderer\<close>) draws one batching layer per call of
  \<open>drawLayer\<close>. Numbers are JavaScript doubles; the drawing path never computes with them
  (it only passes them on and compares them), so they are modelled as reals. Handles of GPU
  objects (uniform locations, attributes, buffers) are natural numbers. A JavaScript value
  that may be \<open>undefined\<close> or \<open>null\<close> is an option: both are falsy, both are accepted as
  a uniform location by WebGL, and a method call on either raises a TypeError.
\<close>

type_synonym vec3 = "real \<times> real \<times> real"
type_synonym mat4 = "real list"
type_synonym loc = nat
type_synonym attr = nat
type_synonym buf = nat

text \<open>
  A section plane. The renderer reads \<open>pos\<close>, \<open>dir\<close> and \<open>dist\<close> (here
  \<open>planeDist\<close>); \<open>sp_id\<close> is the identity of the plane object.
\<close>

record sectionPlane =
  sp_id :: nat
  pos :: vec3
  dir :: vec3
  planeDist :: real

record sectionPlanesState =
  sectionPlanes :: "sectionPlane list"

text \<open>
  The scene, as far as the renderer looks into it: \<open>scene._sectionPlanesState\<close> and
  \<open>scene.camera._project._state.matrix\<close>.
\<close>

record scene =
  sectionPlanesState :: sectionPlanesState
  cameraProjectMatrix :: mat4

record renderFlags =
  sectionPlanesActivePerLayer :: "bool list"

record model =
  scene :: scene
  viewMatrix :: mat4
  renderFlags :: renderFlags

record indicesBuf =
  ib_handle :: buf
  numItems :: nat
  itemType :: nat

record layerState =
  positionsBuf :: buf
  offsetsBuf :: buf
  colorsBuf :: buf
  flagsBuf :: buf
  flags2Buf :: buf
  indicesBuf :: indicesBuf
  positionsDecodeMatrix :: mat4
  rtcCenter :: "vec3 option"
  primitive :: nat

record batchingLayer =
  model :: model
  state :: layerState
  layerIndex :: nat

record frameCtx =
  lastProgramId :: "nat option"
  lastRTCCenter :: "vec3 option"

text \<open>
  The class \<open>Program\<close> (webgl/Program.js) is imported by the renderer and is not part of
  the sources at hand. A program object is taken as it comes out of \<open>new Program(gl, src)\<close>:
  its \<open>id\<close>, its \<open>errors\<close> (set when compilation failed) and what \<open>getLocation\<close> and
  \<open>getAttribute\<close> answer.
\<close>

record program =
  prog_id :: nat
  prog_errors :: "string list option"
  getLocation :: "string \<Rightarrow> loc option"
  getAttribute :: "string \<Rightarrow> attr option"

record sectionPlaneUniforms =
  u_active :: "loc option"
  u_pos :: "loc option"
  u_dir :: "loc option"

record renderer =
  hash :: "nat \<times> nat list"
  program :: "program option"
  errors :: "string list option"
  uPositionsDecodeMatrix :: "loc option"
  uViewMatrix :: "loc option"
  uProjMatrix :: "loc option"
  uSectionPlanes :: "sectionPlaneUniforms list option"
  aPosition :: "attr option"
  aOffset :: "attr option"
  aColor :: "attr option"
  aFlags :: "attr option"
  aFlags2 :: "attr option"

text \<open>
  The renderer imports \<open>createRTCViewMat\<close> and \<open>getPlaneRTCPos\<close> from
  math/rtcCoords.js and \<open>math.compareVec3\<close> from math/math.js. Neither file is part of
  the sources at hand; the renderer passes the results of the first two on and branches on
  the third, so the three functions are parameters of the model.
\<close>

record imported =
  createRTCViewMat :: "mat4 \<Rightarrow> vec3 \<Rightarrow> mat4"
  getPlaneRTCPos :: "real \<Rightarrow> vec3 \<Rightarrow> vec3 \<Rightarrow> vec3"
  compareVec3 :: "vec3 \<Rightarrow> vec3 \<Rightarrow> bool"

subsection \<open>The calls the renderer issues\<close>

text \<open>
  Every call that the renderer makes on the GL context, on its program and on its
  attributes and buffers is recorded, in order. A uniform write carries the renderer field
  the location was read from, the location and the value; an attribute binding carries the
  renderer field, the attribute and the buffer.
\<close>

datatype uniformSlot =
  UViewMatrix | UProjMatrix | UPositionsDecodeMatrix
  | USectionPlaneActive nat | USectionPlanePos nat | USectionPlaneDir nat

datatype attrSlot = APosition | AOffset | AColor | AFlags | AFlags2

datatype glcall =
  ProgramBind nat
  | ProgramDestroy nat
  | UniformMatrix4fv uniformSlot "loc option" bool mat4
  | Uniform1i uniformSlot "loc option" int
  | Uniform3fv uniformSlot "loc option" vec3
  | BindArrayBuffer attrSlot attr buf
  | IndicesBind buf
  | DrawElements nat nat nat nat

datatype outcome = Drawn | Skipped | TypeError

record drawResult =
  status :: outcome
  rend :: renderer
  fctx :: frameCtx
  calls :: "glcall list"

section \<open>Operations of the renderer\<close>

subsection \<open>The section-plane state and the comparison helper\<close>

text \<open>
  Modelled from the spec: \<open>SectionPlanesState.getHash\<close> is not part of the sources at
  hand; the hash is the structural signature of the ordered plane collection, count and
  identity.
\<close>

definition getHash :: "sectionPlanesState \<Rightarrow> nat \<times> nat list" where
  "getHash s = (length (sectionPlanes s), map sp_id (sectionPlanes s))"

text \<open>
  Modelled from the spec: the clip-plane operation that adds a plane is external; planes
  are kept in insertion order.
\<close>

definition addSectionPlane :: "sectionPlane \<Rightarrow> sectionPlanesState \<Rightarrow> sectionPlanesState" where
  "addSectionPlane p s = s\<lparr>sectionPlanes := sectionPlanes s @ [p]\<rparr>"

fun removeFirst :: "nat \<Rightarrow> sectionPlane list \<Rightarrow> sectionPlane list" where
  "removeFirst i [] = []"
| "removeFirst i (p # ps) = (if sp_id p = i then ps else p # removeFirst i ps)"

text \<open>
  Modelled from the spec: the clip-plane operation that removes a plane is external; the
  plane with the given identity leaves the ordered collection.
\<close>

definition removeSectionPlane :: "sectionPlane \<Rightarrow> sectionPlanesState \<Rightarrow> sectionPlanesState" where
  "removeSectionPlane p s = s\<lparr>sectionPlanes := removeFirst (sp_id p) (sectionPlanes s)\<rparr>"

text \<open>
  Modelled from the spec: the comparison helper compares two centers component-wise, by
  value. This is the exact comparison; the model of \<open>drawLayer\<close> does not depend on it
  and takes the helper as a parameter.
\<close>

definition exactCompareVec3 :: "vec3 \<Rightarrow> vec3 \<Rightarrow> bool" where
  "exactCompareVec3 v1 v2 =
     (case v1 of (x1, y1, z1) \<Rightarrow> case v2 of (x2, y2, z2) \<Rightarrow> x1 = x2 \<and> y1 = y2 \<and> z1 = z2)"

subsection \<open>Decimal rendering of an index\<close>

text \<open>\<open>"sectionPlaneActive" + i\<close> appends the decimal digits of \<open>i\<close>.\<close>

definition digit_char :: "nat \<Rightarrow> char" where
  "digit_char n = ''0123456789'' ! n"

fun string_of_nat :: "nat \<Rightarrow> string" where
  "string_of_nat n =
     (if n < 10 then [digit_char n]
      else string_of_nat (n div 10) @ [digit_char (n mod 10)])"

declare string_of_nat.simps [simp del]

subsection \<open>\<open>_allocate\<close>, the constructor, \<open>getValid\<close>, \<open>webglContextRestored\<close>, \<open>destroy\<close>\<close>

text \<open>
  \<open>_allocate\<close> stores the new program first, and on a compilation error records the
  errors and returns: the program field keeps the failed program. \<open>newProgram\<close> is the
  object \<open>new Program(gl, this._shaderSource)\<close> yields; \<open>thisScene\<close> is the scene the
  renderer was constructed with, as it is at the time of the call.
\<close>

definition allocate :: "program \<Rightarrow> scene \<Rightarrow> renderer \<Rightarrow> renderer" where
  "allocate newProgram thisScene r =
     (let r1 = r\<lparr>program := Some newProgram\<rparr> in
      case prog_errors newProgram of
        Some es \<Rightarrow> r1\<lparr>errors := Some es\<rparr>
      | None \<Rightarrow>
          r1\<lparr>uPositionsDecodeMatrix := getLocation newProgram ''positionsDecodeMatrix'',
             uViewMatrix := getLocation newProgram ''viewMatrix'',
             uProjMatrix := getLocation newProgram ''projMatrix'',
             uSectionPlanes := Some (map (\<lambda>i.
                 \<lparr>u_active = getLocation newProgram (''sectionPlaneActive'' @ string_of_nat i),
                  u_pos = getLocation newProgram (''sectionPlanePos'' @ string_of_nat i),
                  u_dir = getLocation newProgram (''sectionPlaneDir'' @ string_of_nat i)\<rparr>)
               [0 ..< length (sectionPlanes (sectionPlanesState thisScene))]),
             aPosition := getAttribute newProgram ''position'',
             aOffset := getAttribute newProgram ''offset'',
             aColor := getAttribute newProgram ''color'',
             aFlags := getAttribute newProgram ''flags'',
             aFlags2 := getAttribute newProgram ''flags2''\<rparr>)"

definition constructor :: "program \<Rightarrow> scene \<Rightarrow> renderer" where
  "constructor newProgram thisScene =
     allocate newProgram thisScene
       \<lparr>hash = getHash (sectionPlanesState thisScene),
        program = None, errors = None,
        uPositionsDecodeMatrix = None, uViewMatrix = None, uProjMatrix = None,
        uSectionPlanes = None,
        aPosition = None, aOffset = None, aColor = None, aFlags = None, aFlags2 = None\<rparr>"

definition getValid :: "renderer \<Rightarrow> scene \<Rightarrow> bool" where
  "getValid r thisScene = (hash r = getHash (sectionPlanesState thisScene))"

definition webglContextRestored :: "renderer \<Rightarrow> renderer" where
  "webglContextRestored r = r\<lparr>program := None\<rparr>"

definition destroy :: "renderer \<Rightarrow> glcall list \<times> renderer" where
  "destroy r =
     (case program r of
        Some p \<Rightarrow> ([ProgramDestroy (prog_id p)], r\<lparr>program := None\<rparr>)
      | None \<Rightarrow> ([], r\<lparr>program := None\<rparr>))"

subsection \<open>\<open>drawLayer\<close>\<close>

text \<open>
  Tracking of the RTC center (the \<open>if (rtcCenter) ... else if (frameCtx.lastRTCCenter)\<close>
  block): the new frame context, and whether the block set \<open>loadSectionPlanes\<close>.
\<close>

definition trackRTCCenter :: "imported \<Rightarrow> vec3 option \<Rightarrow> frameCtx \<Rightarrow> frameCtx \<times> bool" where
  "trackRTCCenter rc rtc fc =
     (case rtc of
        Some c \<Rightarrow>
          (case lastRTCCenter fc of
             Some l \<Rightarrow>
               if \<not> compareVec3 rc c l then (fc\<lparr>lastRTCCenter := Some c\<rparr>, True)
               else (fc, False)
           | None \<Rightarrow> (fc\<lparr>lastRTCCenter := Some c\<rparr>, True))
      | None \<Rightarrow>
          (case lastRTCCenter fc of
             Some l \<Rightarrow> (fc\<lparr>lastRTCCenter := None\<rparr>, True)
           | None \<Rightarrow> (fc, False)))"

text \<open>
  \<open>renderFlags.sectionPlanesActivePerLayer[k]\<close>: a read past the end of a JavaScript array
  is \<open>undefined\<close>, which is falsy.
\<close>

definition flagAt :: "bool list \<Rightarrow> nat \<Rightarrow> bool" where
  "flagAt flags k = (if k < length flags then flags ! k else False)"

text \<open>
  \<open>this._uSectionPlanes[i]\<close> followed by a field read of the element: a TypeError
  (\<open>None\<close>) when the array was never allocated or has no element \<open>i\<close>.
\<close>

definition uniformsAt :: "sectionPlaneUniforms list option \<Rightarrow> nat \<Rightarrow> sectionPlaneUniforms option" where
  "uniformsAt us i =
     (case us of None \<Rightarrow> None
      | Some l \<Rightarrow> if i < length l then Some (l ! i) else None)"

text \<open>
  The body of the loop over the section planes, for plane \<open>i\<close> with its uniforms \<open>u\<close>.
\<close>

definition planeCalls ::
  "imported \<Rightarrow> sectionPlaneUniforms \<Rightarrow> sectionPlane \<Rightarrow> bool \<Rightarrow> vec3 option \<Rightarrow> nat \<Rightarrow> glcall list" where
  "planeCalls rc u sectionPlane act rtc i =
     Uniform1i (USectionPlaneActive i) (u_active u) (if act then 1 else 0) #
     (if act then
        [case rtc of
           Some c \<Rightarrow> Uniform3fv (USectionPlanePos i) (u_pos u)
                       (getPlaneRTCPos rc (planeDist sectionPlane) (dir sectionPlane) c)
         | None \<Rightarrow> Uniform3fv (USectionPlanePos i) (u_pos u) (pos sectionPlane),
         Uniform3fv (USectionPlaneDir i) (u_dir u) (dir sectionPlane)]
      else [])"

text \<open>
  The loop \<open>for (sectionPlaneIndex = 0; sectionPlaneIndex < numSectionPlanes; ...)\<close>, over
  the indices still to visit. It returns whether a TypeError was raised and the calls
  issued up to there.
\<close>

fun sectionPlaneLoop ::
  "imported \<Rightarrow> sectionPlaneUniforms list option \<Rightarrow> sectionPlane list \<Rightarrow> bool list \<Rightarrow> nat
     \<Rightarrow> vec3 option \<Rightarrow> nat list \<Rightarrow> bool \<times> glcall list" where
  "sectionPlaneLoop rc us planes flags baseIndex rtc [] = (False, [])"
| "sectionPlaneLoop rc us planes flags baseIndex rtc (i # rest) =
     (case uniformsAt us i of
        None \<Rightarrow> (True, [])
      | Some u \<Rightarrow>
          (let act = flagAt flags (baseIndex + i);
               cs = planeCalls rc u (planes ! i) act rtc i;
               (thrown, cs') = sectionPlaneLoop rc us planes flags baseIndex rtc rest
           in (thrown, cs @ cs')))"

text \<open>The block \<open>if (loadSectionPlanes) { ... }\<close>.\<close>

definition loadSectionPlaneUniforms ::
  "imported \<Rightarrow> renderer \<Rightarrow> batchingLayer \<Rightarrow> bool \<times> glcall list" where
  "loadSectionPlaneUniforms rc r batchingLayer =
     (let scn = scene (model batchingLayer);
          numSectionPlanes = length (sectionPlanes (sectionPlanesState scn))
      in if numSectionPlanes > 0 then
           sectionPlaneLoop rc (uSectionPlanes r) (sectionPlanes (sectionPlanesState scn))
             (sectionPlanesActivePerLayer (renderFlags (model batchingLayer)))
             (layerIndex batchingLayer * numSectionPlanes)
             (rtcCenter (state batchingLayer))
             [0 ..< numSectionPlanes]
         else (False, []))"

text \<open>
  \<open>drawLayer\<close> after the allocation gate, with \<open>p\<close> the program in \<open>this._program\<close>.
  A TypeError leaves the frame context as changed so far and the calls issued so far.
\<close>

definition drawBody ::
  "imported \<Rightarrow> program \<Rightarrow> renderer \<Rightarrow> frameCtx \<Rightarrow> batchingLayer \<Rightarrow> drawResult" where
  "drawBody rc p r frameCtx batchingLayer =
     (let mdl = model batchingLayer;
          scn = scene mdl;
          st = state batchingLayer;
          rtc = rtcCenter st;
          bind = (lastProgramId frameCtx \<noteq> Some (prog_id p));
          fc1 = (if bind then frameCtx\<lparr>lastProgramId := Some (prog_id p)\<rparr> else frameCtx);
          c1 = (if bind then [ProgramBind (prog_id p)] else []);
          viewMat = (case rtc of Some c \<Rightarrow> createRTCViewMat rc (viewMatrix mdl) c
                     | None \<Rightarrow> viewMatrix mdl);
          c2 = [UniformMatrix4fv UViewMatrix (uViewMatrix r) False viewMat,
                UniformMatrix4fv UProjMatrix (uProjMatrix r) False (cameraProjectMatrix scn)];
          (fc2, changed) = trackRTCCenter rc rtc fc1;
          loadSectionPlanes = (bind \<or> changed);
          (thrown, c3) = (if loadSectionPlanes then loadSectionPlaneUniforms rc r batchingLayer
                          else (False, []))
      in if thrown then
           \<lparr>status = TypeError, rend = r, fctx = fc2, calls = c1 @ c2 @ c3\<rparr>
         else
           (let c4 = [UniformMatrix4fv UPositionsDecodeMatrix (uPositionsDecodeMatrix r) False
                        (positionsDecodeMatrix st)]
            in case aPosition r of
                 None \<Rightarrow> \<lparr>status = TypeError, rend = r, fctx = fc2, calls = c1 @ c2 @ c3 @ c4\<rparr>
               | Some ap \<Rightarrow>
                   (let c5 = [BindArrayBuffer APosition ap (positionsBuf st)]
                             @ (case aOffset r of Some a \<Rightarrow> [BindArrayBuffer AOffset a (offsetsBuf st)]
                                | None \<Rightarrow> [])
                             @ (case aColor r of Some a \<Rightarrow> [BindArrayBuffer AColor a (colorsBuf st)]
                                | None \<Rightarrow> [])
                    in case aFlags r of
                         None \<Rightarrow>
                           \<lparr>status = TypeError, rend = r, fctx = fc2,
                            calls = c1 @ c2 @ c3 @ c4 @ c5\<rparr>
                       | Some af \<Rightarrow>
                           (let c6 = [BindArrayBuffer AFlags af (flagsBuf st)]
                                     @ (case aFlags2 r of
                                          Some a \<Rightarrow> [BindArrayBuffer AFlags2 a (flags2Buf st)]
                                        | None \<Rightarrow> [])
                                     @ [IndicesBind (ib_handle (indicesBuf st)),
                                        DrawElements (primitive st) (numItems (indicesBuf st))
                                          (itemType (indicesBuf st)) 0]
                            in \<lparr>status = Drawn, rend = r, fctx = fc2,
                                calls = c1 @ c2 @ c3 @ c4 @ c5 @ c6\<rparr>))))"

text \<open>
  \<open>drawLayer\<close>: the allocation gate, then the body. \<open>this.errors\<close> is looked at only
  inside \<open>if (!this._program)\<close>, after \<open>_allocate\<close>. \<open>newProgram\<close> is the program a
  \<open>new Program(...)\<close> would yield in this call, \<open>thisScene\<close> the renderer's own scene.
\<close>

definition drawLayer ::
  "imported \<Rightarrow> program \<Rightarrow> scene \<Rightarrow> renderer \<Rightarrow> frameCtx \<Rightarrow> batchingLayer \<Rightarrow> drawResult" where
  "drawLayer rc newProgram thisScene r frameCtx batchingLayer =
     (case program r of
        None \<Rightarrow>
          (let r1 = allocate newProgram thisScene r in
           if errors r1 \<noteq> None then
             \<lparr>status = Skipped, rend = r1, fctx = frameCtx, calls = []\<rparr>
           else drawBody rc newProgram r1 frameCtx batchingLayer)
      | Some p \<Rightarrow> drawBody rc p r frameCtx batchingLayer)"


section \<open>The orthographic projection\<close>

text \<open>
  The property setters of class \<open>Ortho\<close>. A setter receives whatever the caller assigns:
  \<open>undefined\<close>, \<open>null\<close>, a number (a finite real, an infinity or NaN), a boolean, a
  string, or any other value (an object, a BigInt, a symbol), which is known by a handle.
  The setters only compare and store, so no rounding is involved; the literal \<open>0.01\<close>
  stands for the double next to it, which is positive as well. \<open>_needUpdate\<close> and
  \<open>fire\<close> belong to the base class \<open>Component\<close>, which is not part of the sources at
  hand: the calls are recorded and not interpreted.
\<close>

datatype jsnum = Num real | PosInf | NegInf | NaN

datatype jsval =
  Undefined | Null | Number jsnum | Boolean bool | String string | Other nat

text \<open>
  What the language does when \<open>value <= 0\<close> meets a value that is not a number: a string
  is converted by the language's string-to-number conversion, any other value by its own
  conversion, which may throw. Both belong to the language and to the caller's objects,
  not to this repository, and are parameters: \<open>stringToNumber\<close>, and \<open>otherLeZero\<close>
  for the outcome of \<open>value <= 0\<close> on another value, \<open>None\<close> when the comparison throws.
\<close>

record jsConversions =
  stringToNumber :: "string \<Rightarrow> jsnum"
  otherLeZero :: "nat \<Rightarrow> bool option"

fun num_le_zero :: "jsnum \<Rightarrow> bool" where
  "num_le_zero (Num x) = (x \<le> 0)"
| "num_le_zero PosInf = False"
| "num_le_zero NegInf = True"
| "num_le_zero NaN = False"

text \<open>
  \<open>value <= 0\<close>: \<open>null\<close> and \<open>false\<close> convert to 0, \<open>true\<close> to 1, \<open>undefined\<close>
  to NaN; a comparison with NaN is false.
\<close>

fun js_le_zero :: "jsConversions \<Rightarrow> jsval \<Rightarrow> bool option" where
  "js_le_zero cv Undefined = Some False"
| "js_le_zero cv Null = Some True"
| "js_le_zero cv (Number n) = Some (num_le_zero n)"
| "js_le_zero cv (Boolean b) = Some (\<not> b)"
| "js_le_zero cv (String str) = Some (num_le_zero (stringToNumber cv str))"
| "js_le_zero cv (Other h) = otherLeZero cv h"

text \<open>A stored value is a strictly positive scale: a number greater than zero.\<close>

fun js_positive :: "jsval \<Rightarrow> bool" where
  "js_positive (Number (Num x)) = (0 < x)"
| "js_positive (Number PosInf) = True"
| "js_positive _ = False"

datatype orthoCall = NeedUpdate | Fire string jsval

record ortho =
  scale :: jsval
  near :: jsval
  far :: jsval
  orthoCalls :: "orthoCall list"

text \<open>
  The scale setter. \<open>None\<close>: the comparison \<open>value <= 0\<close> threw, and nothing was
  stored.
\<close>

definition set_scale :: "jsConversions \<Rightarrow> jsval \<Rightarrow> ortho \<Rightarrow> ortho option" where
  "set_scale cv value0 this =
     (let value1 = (if value0 = Undefined \<or> value0 = Null then Number (Num 1.0) else value0)
      in case js_le_zero cv value1 of
           None \<Rightarrow> None
         | Some le \<Rightarrow>
             (let value2 = (if le then Number (Num 0.01) else value1)
              in Some (this\<lparr>scale := value2,
                            orthoCalls := orthoCalls this @ [NeedUpdate, Fire ''scale'' value2]\<rparr>)))"

definition set_near :: "jsval \<Rightarrow> ortho \<Rightarrow> ortho" where
  "set_near value0 this =
     (let v = (if value0 \<noteq> Undefined \<and> value0 \<noteq> Null then value0 else Number (Num 0.1))
      in this\<lparr>near := v, orthoCalls := orthoCalls this @ [NeedUpdate, Fire ''near'' v]\<rparr>)"

definition set_far :: "jsval \<Rightarrow> ortho \<Rightarrow> ortho" where
  "set_far value0 this =
     (let v = (if value0 \<noteq> Undefined \<and> value0 \<noteq> Null then value0 else Number (Num 10000.0))
      in this\<lparr>far := v, orthoCalls := orthoCalls this @ [NeedUpdate, Fire ''far'' v]\<rparr>)"

section \<open>Reading the recorded calls\<close>

fun isProgramBind :: "glcall \<Rightarrow> bool" where
  "isProgramBind (ProgramBind _) = True"
| "isProgramBind _ = False"

fun uniformSlotOf :: "glcall \<Rightarrow> uniformSlot option" where
  "uniformSlotOf (UniformMatrix4fv s _ _ _) = Some s"
| "uniformSlotOf (Uniform1i s _ _) = Some s"
| "uniformSlotOf (Uniform3fv s _ _) = Some s"
| "uniformSlotOf _ = None"


fun isSectionPlaneSlot :: "uniformSlot \<Rightarrow> bool" where
  "isSectionPlaneSlot (USectionPlaneActive _) = True"
| "isSectionPlaneSlot (USectionPlanePos _) = True"
| "isSectionPlaneSlot (USectionPlaneDir _) = True"
| "isSectionPlaneSlot _ = False"

definition isSectionPlaneWrite :: "glcall \<Rightarrow> bool" where
  "isSectionPlaneWrite c =
     (case uniformSlotOf c of Some s \<Rightarrow> isSectionPlaneSlot s | None \<Rightarrow> False)"

text \<open>The writes to one uniform, the bindings of one attribute, the program binds.\<close>

definition writesTo :: "uniformSlot \<Rightarrow> glcall list \<Rightarrow> glcall list" where
  "writesTo s cs = filter (\<lambda>c. uniformSlotOf c = Some s) cs"


definition programBinds :: "glcall list \<Rightarrow> glcall list" where
  "programBinds cs = filter isProgramBind cs"





text \<open>
  The layer's RTC center differs from the remembered one: the comparison helper rejects
  the pair, or one of the two is null and the other is not.
\<close>

definition rtcDiffers :: "imported \<Rightarrow> vec3 option \<Rightarrow> vec3 option \<Rightarrow> bool" where
  "rtcDiffers rc rtc lastRtc =
     (case rtc of
        Some c \<Rightarrow> (case lastRtc of Some l \<Rightarrow> \<not> compareVec3 rc c l | None \<Rightarrow> True)
      | None \<Rightarrow> (case lastRtc of Some l \<Rightarrow> True | None \<Rightarrow> False))"

text \<open>
  The remembered center stands for the layer's center: it is that center, or one the
  comparison helper accepts as equal to it; a layer without center leaves null.
\<close>

definition rtcAgrees :: "imported \<Rightarrow> vec3 option \<Rightarrow> vec3 option \<Rightarrow> bool" where
  "rtcAgrees rc rtc lastRtc =
     (case rtc of
        Some c \<Rightarrow> (case lastRtc of Some l \<Rightarrow> l = c \<or> compareVec3 rc c l | None \<Rightarrow> False)
      | None \<Rightarrow> lastRtc = None)"

subsection \<open>The segments of a completed draw\<close>

definition bindCalls :: "program \<Rightarrow> frameCtx \<Rightarrow> glcall list" where
  "bindCalls p fc =
     (if lastProgramId fc \<noteq> Some (prog_id p) then [ProgramBind (prog_id p)] else [])"

definition matrixCalls :: "imported \<Rightarrow> renderer \<Rightarrow> batchingLayer \<Rightarrow> glcall list" where
  "matrixCalls rc r bl =
     [UniformMatrix4fv UViewMatrix (uViewMatrix r) False
        (case rtcCenter (state bl) of
           Some c \<Rightarrow> createRTCViewMat rc (viewMatrix (model bl)) c
         | None \<Rightarrow> viewMatrix (model bl)),
      UniformMatrix4fv UProjMatrix (uProjMatrix r) False
        (cameraProjectMatrix (scene (model bl)))]"






section \<open>Example inputs\<close>

text \<open>
  A scene with one section plane, a program that compiles and declares the position, flags
  and color attributes, a program whose compilation fails, and a layer with an RTC center.
  The imported functions are stand-ins, with the exact comparison for \<open>compareVec3\<close>.
\<close>

definition rc0 :: imported where
  "rc0 = \<lparr>createRTCViewMat = (\<lambda>m c. m @ [fst c]), getPlaneRTCPos = (\<lambda>d n c. (d, d, d)),
          compareVec3 = exactCompareVec3\<rparr>"

definition okProgram :: program where
  "okProgram =
     \<lparr>prog_id = 7, prog_errors = None,
      getLocation = map_of [(''positionsDecodeMatrix'', 1), (''viewMatrix'', 2),
        (''projMatrix'', 3), (''sectionPlaneActive0'', 4), (''sectionPlanePos0'', 5),
        (''sectionPlaneDir0'', 6)],
      getAttribute = map_of [(''position'', 0), (''flags'', 1), (''color'', 2)]\<rparr>"

definition badProgram :: program where
  "badProgram =
     \<lparr>prog_id = 8, prog_errors = Some [''compile error''],
      getLocation = (\<lambda>n. None), getAttribute = (\<lambda>n. None)\<rparr>"

definition plane0 :: sectionPlane where
  "plane0 = \<lparr>sp_id = 1, pos = (1, 0, 0), dir = (1, 0, 0), planeDist = 1\<rparr>"

definition plane1 :: sectionPlane where
  "plane1 = \<lparr>sp_id = 2, pos = (0, 2, 0), dir = (0, 1, 0), planeDist = 2\<rparr>"

definition scene1 :: scene where
  "scene1 = \<lparr>sectionPlanesState = \<lparr>sectionPlanes = [plane0]\<rparr>, cameraProjectMatrix = [1]\<rparr>"

definition layer1 :: batchingLayer where
  "layer1 =
     \<lparr>model = \<lparr>scene = scene1, viewMatrix = [2],
               renderFlags = \<lparr>sectionPlanesActivePerLayer = [True]\<rparr>\<rparr>,
      state = \<lparr>positionsBuf = 10, offsetsBuf = 11, colorsBuf = 12, flagsBuf = 13,
               flags2Buf = 14,
               indicesBuf = \<lparr>ib_handle = 15, numItems = 6, itemType = 5123\<rparr>,
               positionsDecodeMatrix = [3], rtcCenter = Some (5, 0, 0), primitive = 4\<rparr>,
      layerIndex = 0\<rparr>"

definition fc0 :: frameCtx where
  "fc0 = \<lparr>lastProgramId = None, lastRTCCenter = None\<rparr>"

definition fc1 :: frameCtx where
  "fc1 = \<lparr>lastProgramId = Some 7, lastRTCCenter = Some (5, 0, 0)\<rparr>"

definition renderer1 :: renderer where
  "renderer1 = constructor okProgram scene1"

text \<open>
  The scene after a second plane was added, a layer of it, and a second program that
  compiles. \<open>reallocated2\<close> is the first draw of the example renderer in that scene after
  its context was restored: the draw that allocates the second program.
\<close>

definition okProgram2 :: program where
  "okProgram2 =
     \<lparr>prog_id = 9, prog_errors = None,
      getLocation = map_of [(''positionsDecodeMatrix'', 1), (''viewMatrix'', 2),
        (''projMatrix'', 3), (''sectionPlaneActive0'', 4), (''sectionPlanePos0'', 5),
        (''sectionPlaneDir0'', 6), (''sectionPlaneActive1'', 7), (''sectionPlanePos1'', 8),
        (''sectionPlaneDir1'', 9)],
      getAttribute = map_of [(''position'', 0), (''flags'', 1), (''color'', 2)]\<rparr>"

definition scene2 :: scene where
  "scene2 =
     \<lparr>sectionPlanesState = \<lparr>sectionPlanes = [plane0, plane1]\<rparr>, cameraProjectMatrix = [1]\<rparr>"

definition layer2 :: batchingLayer where
  "layer2 =
     \<lparr>model = \<lparr>scene = scene2, viewMatrix = [2],
               renderFlags = \<lparr>sectionPlanesActivePerLayer = [True, False]\<rparr>\<rparr>,
      state = \<lparr>positionsBuf = 10, offsetsBuf = 11, colorsBuf = 12, flagsBuf = 13,
               flags2Buf = 14,
               indicesBuf = \<lparr>ib_handle = 15, numItems = 6, itemType = 5123\<rparr>,
               positionsDecodeMatrix = [3], rtcCenter = None, primitive = 4\<rparr>,
      layerIndex = 0\<rparr>"

definition reallocated2 :: drawResult where
  "reallocated2 = drawLayer rc0 okProgram2 scene2 (webglContextRestored renderer1) fc0 layer2"

definition ortho0 :: ortho where
  "ortho0 = \<lparr>scale = Undefined, near = Undefined, far = Undefined, orthoCalls = []\<rparr>"


section \<open>Facts about the model\<close>

lemmas example_defs = rc0_def okProgram_def badProgram_def plane0_def plane1_def scene1_def
  layer1_def fc0_def fc1_def renderer1_def ortho0_def okProgram2_def scene2_def layer2_def
  reallocated2_def

lemmas run_defs = drawLayer_def drawBody_def allocate_def constructor_def
  webglContextRestored_def trackRTCCenter_def loadSectionPlaneUniforms_def uniformsAt_def
  flagAt_def planeCalls_def exactCompareVec3_def getHash_def getValid_def Let_def
  string_of_nat.simps digit_char_def

subsection \<open>The comparison of RTC centers\<close>

lemma exactCompareVec3_eq: "exactCompareVec3 a b = (a = b)"
  by (cases a; cases b) (auto simp: exactCompareVec3_def)


lemma trackRTCCenter_last:
  "rtcAgrees rc rtc (lastRTCCenter (fst (trackRTCCenter rc rtc fc)))"
  by (auto simp: trackRTCCenter_def rtcAgrees_def split: option.splits)

lemma trackRTCCenter_pid: "lastProgramId (fst (trackRTCCenter rc rtc fc)) = lastProgramId fc"
  by (auto simp: trackRTCCenter_def split: option.splits)

lemma rtcDiffers_exact:
  "(\<forall>a b. compareVec3 rc a b = (a = b)) \<Longrightarrow> rtcDiffers rc rtc lastRtc = (rtc \<noteq> lastRtc)"
  by (auto simp: rtcDiffers_def split: option.splits)

lemma rtcAgrees_exact:
  "(\<forall>a b. compareVec3 rc a b = (a = b)) \<Longrightarrow> rtcAgrees rc rtc lastRtc = (lastRtc = rtc)"
  by (auto simp: rtcAgrees_def split: option.splits)

subsection \<open>Filters over the recorded calls\<close>





lemma programBinds_exists: "(\<exists>c \<in> set cs. isProgramBind c) = (programBinds cs \<noteq> [])"
  by (simp add: programBinds_def filter_empty_conv)




lemma section_not_bind: "isSectionPlaneWrite c \<Longrightarrow> \<not> isProgramBind c"
  by (cases c) (simp_all add: isSectionPlaneWrite_def)

lemma section_not_matrix:
  "isSectionPlaneWrite c \<Longrightarrow>
     uniformSlotOf c \<noteq> Some UViewMatrix \<and> uniformSlotOf c \<noteq> Some UProjMatrix"
  by (cases c) (auto simp: isSectionPlaneWrite_def)


subsection \<open>The loop over the section planes\<close>




lemma planeCalls_section: "c \<in> set (planeCalls rc u pl act rtc i) \<Longrightarrow> isSectionPlaneWrite c"
  by (auto simp: planeCalls_def isSectionPlaneWrite_def split: option.splits if_splits)



lemma sectionPlaneLoop_section:
  "c \<in> set (snd (sectionPlaneLoop rc us planes flags base rtc is)) \<Longrightarrow> isSectionPlaneWrite c"
proof (induction "is")
  case Nil
  then show ?case by simp
next
  case (Cons i rest)
  then show ?case
    by (cases "uniformsAt us i") (auto simp: Let_def split_beta dest: planeCalls_section)
qed

lemma loadSectionPlaneUniforms_section:
  "c \<in> set (snd (loadSectionPlaneUniforms rc r bl)) \<Longrightarrow> isSectionPlaneWrite c"
  by (auto simp: loadSectionPlaneUniforms_def Let_def split: if_splits
      dest: sectionPlaneLoop_section)







subsection \<open>The other segments\<close>




subsection \<open>The body of \<open>drawLayer\<close>\<close>


text \<open>
  Whatever the outcome, the body starts with the program bind (if any) and the two matrix
  writes, and nothing after them binds the program or writes the two matrices again.
\<close>

lemma drawBody_prefix:
  "\<exists>rest. calls (drawBody rc p r fc bl) = bindCalls p fc @ matrixCalls rc r bl @ rest
     \<and> programBinds rest = [] \<and> writesTo UViewMatrix rest = []
     \<and> writesTo UProjMatrix rest = []"
proof -
  let ?bind = "lastProgramId fc \<noteq> Some (prog_id p)"
  let ?fc1 = "if ?bind then fc\<lparr>lastProgramId := Some (prog_id p)\<rparr> else fc"
  let ?load = "?bind \<or> snd (trackRTCCenter rc (rtcCenter (state bl)) ?fc1)"
  let ?sp = "if ?load then loadSectionPlaneUniforms rc r bl else (False, [])"
  have sec: "\<forall>c \<in> set (snd ?sp). isSectionPlaneWrite c"
    by (auto dest: loadSectionPlaneUniforms_section split: if_splits)
  have f1: "programBinds (snd ?sp) = []"
    unfolding programBinds_def using sec section_not_bind by (auto simp: filter_empty_conv)
  have f2: "writesTo UViewMatrix (snd ?sp) = []"
    unfolding writesTo_def using sec section_not_matrix by (auto simp: filter_empty_conv)
  have f3: "writesTo UProjMatrix (snd ?sp) = []"
    unfolding writesTo_def using sec section_not_matrix by (auto simp: filter_empty_conv)
  have "\<exists>rest. calls (drawBody rc p r fc bl)
        = bindCalls p fc @ matrixCalls rc r bl @ snd ?sp @ rest
      \<and> programBinds rest = [] \<and> writesTo UViewMatrix rest = []
      \<and> writesTo UProjMatrix rest = []"
    by (cases "fst ?sp"; cases "aPosition r"; cases "aFlags r"; cases "aOffset r";
        cases "aColor r"; cases "aFlags2 r")
      (simp_all add: drawBody_def Let_def split_beta bindCalls_def matrixCalls_def
        programBinds_def writesTo_def)
  then obtain rest where
    rest: "calls (drawBody rc p r fc bl) = bindCalls p fc @ matrixCalls rc r bl @ snd ?sp @ rest"
    and r1: "programBinds rest = []" and r2: "writesTo UViewMatrix rest = []"
    and r3: "writesTo UProjMatrix rest = []"
    by blast
  have "programBinds (snd ?sp @ rest) = []" "writesTo UViewMatrix (snd ?sp @ rest) = []"
    "writesTo UProjMatrix (snd ?sp @ rest) = []"
    using f1 f2 f3 r1 r2 r3 by (simp_all add: programBinds_def writesTo_def)
  with rest show ?thesis by blast
qed

lemma drawBody_programBinds: "programBinds (calls (drawBody rc p r fc bl)) = bindCalls p fc"
proof -
  obtain rest where "calls (drawBody rc p r fc bl) = bindCalls p fc @ matrixCalls rc r bl @ rest"
    and "programBinds rest = []"
    using drawBody_prefix by blast
  then show ?thesis by (simp add: programBinds_def bindCalls_def matrixCalls_def)
qed

lemma drawBody_fctx:
  "lastProgramId (fctx (drawBody rc p r fc bl)) = Some (prog_id p)"
  "rtcAgrees rc (rtcCenter (state bl)) (lastRTCCenter (fctx (drawBody rc p r fc bl)))"
proof -
  let ?bind = "lastProgramId fc \<noteq> Some (prog_id p)"
  let ?fc1 = "if ?bind then fc\<lparr>lastProgramId := Some (prog_id p)\<rparr> else fc"
  have fc: "fctx (drawBody rc p r fc bl) = fst (trackRTCCenter rc (rtcCenter (state bl)) ?fc1)"
    by (simp add: drawBody_def Let_def split_beta split: option.splits)
  show "lastProgramId (fctx (drawBody rc p r fc bl)) = Some (prog_id p)"
    unfolding fc by (simp add: trackRTCCenter_pid)
  show "rtcAgrees rc (rtcCenter (state bl)) (lastRTCCenter (fctx (drawBody rc p r fc bl)))"
    unfolding fc by (rule trackRTCCenter_last)
qed

lemma drawBody_rend: "rend (drawBody rc p r fc bl) = r"
  by (simp add: drawBody_def Let_def split_beta split: option.splits)

lemma drawBody_not_Skipped: "status (drawBody rc p r fc bl) \<noteq> Skipped"
  by (simp add: drawBody_def Let_def split_beta split: option.splits)

subsection \<open>The allocation gate\<close>

lemma allocate_program: "program (allocate np ts r) = Some np"
  by (simp add: allocate_def Let_def split: option.splits)

text \<open>\<open>_allocate\<close> never touches the cached hash: only the constructor sets it.\<close>

lemma allocate_hash: "hash (allocate np ts r) = hash r"
  by (simp add: allocate_def Let_def split: option.splits)

text \<open>
  The two ways through \<open>drawLayer\<close>: the call is skipped after a failed lazy allocation,
  or it runs the body with the program the renderer holds after the gate.
\<close>

lemma drawLayer_cases:
  obtains (skipped) "program r = None" "status (drawLayer rc np ts r fc bl) = Skipped"
      "calls (drawLayer rc np ts r fc bl) = []" "fctx (drawLayer rc np ts r fc bl) = fc"
      "program (rend (drawLayer rc np ts r fc bl)) = Some np"
  | (body) p where "program (rend (drawLayer rc np ts r fc bl)) = Some p"
      "drawLayer rc np ts r fc bl = drawBody rc p (rend (drawLayer rc np ts r fc bl)) fc bl"
      "program r = None \<or> program r = Some p"
proof (cases "program r")
  case None
  show ?thesis
  proof (cases "errors (allocate np ts r) \<noteq> None")
    case True
    with None show ?thesis
      by (intro skipped) (simp_all add: drawLayer_def Let_def allocate_program)
  next
    case False
    with None have eq: "drawLayer rc np ts r fc bl = drawBody rc np (allocate np ts r) fc bl"
      by (simp add: drawLayer_def Let_def)
    show ?thesis
      by (rule body [of np]) (simp_all add: eq drawBody_rend allocate_program None)
  qed
next
  case (Some p)
  then have eq: "drawLayer rc np ts r fc bl = drawBody rc p r fc bl"
    by (simp add: drawLayer_def)
  show ?thesis
    by (rule body [of p]) (simp_all add: eq drawBody_rend Some)
qed

lemma drawLayer_Drawn:
  assumes "status (drawLayer rc np ts r fc bl) = Drawn"
  obtains p r' where "rend (drawLayer rc np ts r fc bl) = r'" "program r' = Some p"
    "program r = None \<or> program r = Some p"
    "drawLayer rc np ts r fc bl = drawBody rc p r' fc bl"
    "status (drawBody rc p r' fc bl) = Drawn"
proof (cases rule: drawLayer_cases [of r rc np ts fc bl])
  case skipped
  with assms show ?thesis by simp
next
  case (body p)
  show ?thesis
    by (rule that [of "rend (drawLayer rc np ts r fc bl)" p]) (use body assms in simp_all)
qed

lemma drawLayer_programBinds:
  "programBinds (calls (drawLayer rc np ts r fc bl)) =
     (if status (drawLayer rc np ts r fc bl) \<noteq> Skipped
         \<and> lastProgramId fc \<noteq> map_option prog_id (program (rend (drawLayer rc np ts r fc bl)))
      then [ProgramBind (prog_id (the (program (rend (drawLayer rc np ts r fc bl)))))]
      else [])"
proof (cases rule: drawLayer_cases [of r rc np ts fc bl])
  case skipped
  then show ?thesis by (simp add: programBinds_def)
next
  case (body p)
  have "programBinds (calls (drawLayer rc np ts r fc bl)) = bindCalls p fc"
    by (subst body(2)) (rule drawBody_programBinds)
  moreover have "status (drawLayer rc np ts r fc bl) \<noteq> Skipped"
    by (subst body(2)) (rule drawBody_not_Skipped)
  ultimately show ?thesis using body(1) by (simp add: bindCalls_def)
qed

text \<open>The example renderer draws the example layer, at the start of a frame and after.\<close>

lemma example_Drawn:
  "status (drawLayer rc0 okProgram scene1 renderer1 fc0 layer1) = Drawn"
  "status (drawLayer rc0 okProgram scene1 renderer1 fc1 layer1) = Drawn"
  by (simp_all add: run_defs example_defs)


lemma example_rend:
  "rend (drawLayer rc0 okProgram scene1 renderer1 fc0 layer1) = renderer1"
  "fctx (drawLayer rc0 okProgram scene1 renderer1 fc0 layer1) = fc1"
  "program renderer1 = Some okProgram"
  by (simp_all add: run_defs example_defs)

text \<open>
  \<open>errors\<close> is never cleared. After a failed compilation, a forced reallocation that
  compiles still has its first call skipped; the call after it draws.
\<close>

lemma drawLayer_after_reallocation:
  "(let failed = rend (drawLayer rc0 badProgram scene1 (webglContextRestored renderer1) fc0 layer1);
        res1 = drawLayer rc0 okProgram scene1 (webglContextRestored failed) fc0 layer1;
        res2 = drawLayer rc0 okProgram scene1 (rend res1) (fctx res1) layer1
    in prog_errors okProgram = None
       \<and> status res1 = Skipped \<and> calls res1 = []
       \<and> map_option prog_id (program (rend res1)) = Some 7
       \<and> status res2 = Drawn)"
  by (simp add: run_defs example_defs)

section \<open>The claims\<close>

subsection \<open>C1: a failed shader compilation\<close>

text \<open>
  Claim C1: if shader compilation fails during allocation, \<open>drawLayer\<close> records the errors
  and returns without issuing any GPU draw call, and every later \<open>drawLayer\<close> call on that
  renderer is a no-op too (no program bind, no uniform write, no \<open>drawElements\<close>) until
  reallocation is forced.

  The code does not keep this. \<open>_allocate\<close> leaves the failed program in \<open>_program\<close>, and
  \<open>drawLayer\<close> looks at \<open>errors\<close> only when \<open>_program\<close> is unset. First run: a renderer
  that was allocated once loses its context and fails to recompile; the first call is
  skipped, the second call binds the failed program, writes uniforms and draws. Second run:
  a renderer whose construction failed to compile binds the program, writes the matrices
  and raises a TypeError on its first call.
\<close>

theorem drawLayer_after_failed_compile:
  "(let r0 = webglContextRestored renderer1;
        res1 = drawLayer rc0 badProgram scene1 r0 fc0 layer1;
        res2 = drawLayer rc0 badProgram scene1 (rend res1) (fctx res1) layer1
    in status res1 = Skipped \<and> calls res1 = []
       \<and> errors (rend res1) = Some [''compile error'']
       \<and> status res2 = Drawn
       \<and> calls res2 =
           [ProgramBind 8,
            UniformMatrix4fv UViewMatrix (Some 2) False [2, 5],
            UniformMatrix4fv UProjMatrix (Some 3) False [1],
            Uniform1i (USectionPlaneActive 0) (Some 4) 1,
            Uniform3fv (USectionPlanePos 0) (Some 5) (1, 1, 1),
            Uniform3fv (USectionPlaneDir 0) (Some 6) (1, 0, 0),
            UniformMatrix4fv UPositionsDecodeMatrix (Some 1) False [3],
            BindArrayBuffer APosition 0 10, BindArrayBuffer AColor 2 12,
            BindArrayBuffer AFlags 1 13, IndicesBind 15, DrawElements 4 6 5123 0])
   \<and> (let r0 = constructor badProgram scene1;
          res = drawLayer rc0 badProgram scene1 r0 fc0 layer1
      in errors r0 = Some [''compile error'']
         \<and> status res = TypeError
         \<and> calls res =
             [ProgramBind 8,
              UniformMatrix4fv UViewMatrix None False [2, 5],
              UniformMatrix4fv UProjMatrix None False [1]])"
  by (simp add: run_defs example_defs)

subsection \<open>C2: the program is bound once for consecutive layers\<close>

text \<open>
  Claim C2: \<open>drawLayer\<close> binds the program if and only if \<open>frameContext.lastProgramId\<close>
  differs from the renderer's program id at the start of the call; so for two layers drawn
  one after the other in a frame with the same compiled program, the program is bound at
  most once across the two draws.

  First part: for a renderer that holds a program, the program binds of the call are one
  bind of that program when the ids differ and none otherwise. Second part: for any
  renderer, a bind happens exactly when the call is not skipped and the id differs from the
  one of the program held after the gate. Third part: a second draw, with the frame context
  the first one left and a renderer holding the same program, adds up to at most one bind.
\<close>

theorem drawLayer_program_bind:
  "(program r = Some p \<longrightarrow>
      programBinds (calls (drawLayer rc np ts r fc bl)) =
        (if lastProgramId fc \<noteq> Some (prog_id p) then [ProgramBind (prog_id p)] else []))
   \<and> ((\<exists>c \<in> set (calls (drawLayer rc np ts r fc bl)). isProgramBind c) =
        (status (drawLayer rc np ts r fc bl) \<noteq> Skipped
         \<and> lastProgramId fc
             \<noteq> map_option prog_id (program (rend (drawLayer rc np ts r fc bl)))))
   \<and> (program rB = program (rend (drawLayer rc np ts r fc bl)) \<longrightarrow>
        length (programBinds (calls (drawLayer rc np ts r fc bl)
                  @ calls (drawLayer rc npB tsB rB (fctx (drawLayer rc np ts r fc bl)) blB)))
          \<le> 1)"
proof (intro conjI impI)
  let ?A = "drawLayer rc np ts r fc bl"
  show "programBinds (calls ?A) =
      (if lastProgramId fc \<noteq> Some (prog_id p) then [ProgramBind (prog_id p)] else [])"
    if "program r = Some p"
    using that by (simp add: drawLayer_def drawBody_programBinds bindCalls_def)
  show "(\<exists>c \<in> set (calls ?A). isProgramBind c) =
      (status ?A \<noteq> Skipped \<and> lastProgramId fc \<noteq> map_option prog_id (program (rend ?A)))"
    by (simp add: programBinds_exists drawLayer_programBinds)
  show "length (programBinds (calls ?A @ calls (drawLayer rc npB tsB rB (fctx ?A) blB))) \<le> 1"
    if same: "program rB = program (rend ?A)"
  proof (cases rule: drawLayer_cases [of r rc np ts fc bl])
    case skipped
    then show ?thesis
      using drawLayer_programBinds [of rc npB tsB rB "fctx ?A" blB]
      by (simp add: programBinds_def)
  next
    case (body p)
    have last: "lastProgramId (fctx ?A) = Some (prog_id p)"
      by (subst body(2)) (rule drawBody_fctx)
    from same body(1) have "program rB = Some p" by simp
    then have "programBinds (calls (drawLayer rc npB tsB rB (fctx ?A) blB))
        = bindCalls p (fctx ?A)"
      by (simp add: drawLayer_def drawBody_programBinds)
    with last have "programBinds (calls (drawLayer rc npB tsB rB (fctx ?A) blB)) = []"
      by (simp add: bindCalls_def)
    moreover have "length (programBinds (calls ?A)) \<le> 1"
      by (simp add: drawLayer_programBinds)
    ultimately show ?thesis by (simp add: programBinds_def)
  qed
qed

theorem drawLayer_program_bind_witness:
  "program renderer1 = Some okProgram
   \<and> lastProgramId fc0 \<noteq> Some (prog_id okProgram)
   \<and> programBinds (calls (drawLayer rc0 okProgram scene1 renderer1 fc0 layer1))
       = [ProgramBind (prog_id okProgram)]
   \<and> lastProgramId fc1 = Some (prog_id okProgram)
   \<and> programBinds (calls (drawLayer rc0 okProgram scene1 renderer1 fc1 layer1)) = []
   \<and> program renderer1 = program (rend (drawLayer rc0 okProgram scene1 renderer1 fc0 layer1))
   \<and> length (programBinds (calls (drawLayer rc0 okProgram scene1 renderer1 fc0 layer1)
        @ calls (drawLayer rc0 okProgram scene1 renderer1
                   (fctx (drawLayer rc0 okProgram scene1 renderer1 fc0 layer1)) layer1))) \<le> 1"
proof -
  have p: "program renderer1 = Some okProgram" by (rule example_rend)
  have same: "program renderer1
      = program (rend (drawLayer rc0 okProgram scene1 renderer1 fc0 layer1))"
    by (simp add: example_rend)
  have ids: "lastProgramId fc0 \<noteq> Some (prog_id okProgram)"
    "lastProgramId fc1 = Some (prog_id okProgram)"
    by (simp_all add: example_defs)
  note a = drawLayer_program_bind [of renderer1 okProgram rc0 okProgram scene1 fc0 layer1
      renderer1 okProgram scene1 layer1]
  note b = drawLayer_program_bind [of renderer1 okProgram rc0 okProgram scene1 fc1 layer1
      renderer1 okProgram scene1 layer1]
  from a p ids have 1: "programBinds (calls (drawLayer rc0 okProgram scene1 renderer1 fc0 layer1))
      = [ProgramBind (prog_id okProgram)]"
    by simp
  from b p ids have 2: "programBinds (calls (drawLayer rc0 okProgram scene1 renderer1 fc1 layer1))
      = []"
    by simp
  from a same have 3: "length (programBinds (calls (drawLayer rc0 okProgram scene1 renderer1 fc0 layer1)
        @ calls (drawLayer rc0 okProgram scene1 renderer1
                   (fctx (drawLayer rc0 okProgram scene1 renderer1 fc0 layer1)) layer1))) \<le> 1"
    by blast
  from p ids 1 2 same 3 show ?thesis by blast
qed

subsection \<open>C3: when the section-plane uniforms are reloaded\<close>




subsection \<open>C4: validity against the section-plane hash\<close>

text \<open>
  Claim C4: \<open>getValid()\<close> returns false immediately after a section plane is added or
  removed (the cached hash no longer matches the scene's current hash), and true
  immediately after the renderer is reallocated.

  The second half fails for the renderer's own reallocation. The hash is cached by the
  constructor only; \<open>_allocate\<close> never writes it. The example renderer was built for the
  scene with one plane; a second plane is added, the context is restored, and the next draw
  allocates a new program (id 9) and draws. The renderer is then still not valid for the
  scene, while a renderer constructed for that scene is.
\<close>

theorem getValid_after_reallocation_counterexample:
  "getValid renderer1 scene1
   \<and> program (webglContextRestored renderer1) = None
   \<and> status reallocated2 = Drawn
   \<and> map_option prog_id (program (rend reallocated2)) = Some 9
   \<and> \<not> getValid (rend reallocated2) scene2
   \<and> getValid (constructor okProgram2 scene2) scene2"
  by (simp add: run_defs example_defs)

text \<open>
  Claim C4, amended: \<open>getValid()\<close> returns false immediately after a section plane is
  added to, or removed from, a scene for which it returned true, and true immediately
  after a renderer is constructed for the scene as it is. Reallocating the program of an
  existing renderer (\<open>_allocate\<close>, reached through \<open>webglContextRestored\<close> or
  \<open>destroy\<close> and the next \<open>drawLayer\<close>) installs the new program and leaves the answer of
  \<open>getValid()\<close> as it was.

  The fourth part is the code's side of the first half, whatever the hash function
  computes: for a renderer that is valid for a scene, \<open>getValid()\<close> on a changed scene
  answers whether the hash is still the same.
\<close>

theorem getValid_after_change:
  "getValid (constructor np s) s
   \<and> (getValid r s \<longrightarrow>
        \<not> getValid r (s\<lparr>sectionPlanesState := addSectionPlane pl (sectionPlanesState s)\<rparr>))
   \<and> (getValid r s \<and> sp_id pl \<in> sp_id ` set (sectionPlanes (sectionPlanesState s)) \<longrightarrow>
        \<not> getValid r (s\<lparr>sectionPlanesState := removeSectionPlane pl (sectionPlanesState s)\<rparr>))
   \<and> (getValid r s \<longrightarrow>
        getValid r s' = (getHash (sectionPlanesState s') = getHash (sectionPlanesState s)))
   \<and> program (allocate np ts r) = Some np
   \<and> getValid (allocate np ts r) s' = getValid r s'
   \<and> getValid (webglContextRestored r) s' = getValid r s'
   \<and> getValid (snd (destroy r)) s' = getValid r s'
   \<and> getValid (rend (drawLayer rc np ts r fc bl)) s' = getValid r s'"
proof (intro conjI impI)
  show "getValid (constructor np s) s"
    by (simp add: getValid_def constructor_def allocate_hash)
  show "\<not> getValid r (s\<lparr>sectionPlanesState := addSectionPlane pl (sectionPlanesState s)\<rparr>)"
    if "getValid r s"
    using that by (simp add: getValid_def getHash_def addSectionPlane_def)
  have len: "i \<in> sp_id ` set ps \<Longrightarrow> Suc (length (removeFirst i ps)) = length ps" for i ps
    by (induction ps) auto
  show "\<not> getValid r (s\<lparr>sectionPlanesState := removeSectionPlane pl (sectionPlanesState s)\<rparr>)"
    if "getValid r s \<and> sp_id pl \<in> sp_id ` set (sectionPlanes (sectionPlanesState s))"
    using that len [of "sp_id pl" "sectionPlanes (sectionPlanesState s)"]
    by (auto simp: getValid_def getHash_def removeSectionPlane_def)
  show "getValid r s' = (getHash (sectionPlanesState s') = getHash (sectionPlanesState s))"
    if "getValid r s"
    using that by (auto simp: getValid_def)
  show "program (allocate np ts r) = Some np"
    by (rule allocate_program)
  show "getValid (allocate np ts r) s' = getValid r s'"
    by (simp add: getValid_def allocate_hash)
  show "getValid (webglContextRestored r) s' = getValid r s'"
    by (simp add: getValid_def webglContextRestored_def)
  show "getValid (snd (destroy r)) s' = getValid r s'"
    by (simp add: getValid_def destroy_def split: option.splits)
  have "hash (rend (drawLayer rc np ts r fc bl)) = hash r"
    by (cases "program r") (simp_all add: drawLayer_def Let_def drawBody_rend allocate_hash)
  then show "getValid (rend (drawLayer rc np ts r fc bl)) s' = getValid r s'"
    by (simp add: getValid_def)
qed

theorem getValid_after_change_witness:
  "getValid renderer1 scene1
   \<and> sp_id plane0 \<in> sp_id ` set (sectionPlanes (sectionPlanesState scene1))
   \<and> \<not> getValid renderer1
         (scene1\<lparr>sectionPlanesState := addSectionPlane plane1 (sectionPlanesState scene1)\<rparr>)
   \<and> \<not> getValid renderer1
         (scene1\<lparr>sectionPlanesState := removeSectionPlane plane0 (sectionPlanesState scene1)\<rparr>)
   \<and> getHash (sectionPlanesState scene2) \<noteq> getHash (sectionPlanesState scene1)
   \<and> \<not> getValid renderer1 scene2
   \<and> \<not> getValid (rend reallocated2) scene2"
proof -
  have v: "getValid renderer1 scene1"
    using getValid_after_change [of okProgram scene1] by (simp add: renderer1_def)
  have m: "sp_id plane0 \<in> sp_id ` set (sectionPlanes (sectionPlanesState scene1))"
    by (simp add: example_defs)
  have h: "getHash (sectionPlanesState scene2) \<noteq> getHash (sectionPlanesState scene1)"
    by (simp add: getHash_def example_defs)
  from getValid_after_change [of okProgram scene1 renderer1 plane1] v
  have 1: "\<not> getValid renderer1
         (scene1\<lparr>sectionPlanesState := addSectionPlane plane1 (sectionPlanesState scene1)\<rparr>)"
    by blast
  from getValid_after_change [of okProgram scene1 renderer1 plane0] v m
  have 2: "\<not> getValid renderer1
         (scene1\<lparr>sectionPlanesState := removeSectionPlane plane0 (sectionPlanesState scene1)\<rparr>)"
    by blast
  from getValid_after_change [of okProgram scene1 renderer1 plane0 scene2] v h
  have 3: "\<not> getValid renderer1 scene2"
    by blast
  from getValid_after_change [of okProgram2 scene2 "webglContextRestored renderer1" plane0
      scene2 scene2 rc0 fc0 layer2]
  have "getValid (rend reallocated2) scene2 = getValid (webglContextRestored renderer1) scene2"
    unfolding reallocated2_def by blast
  moreover
  from getValid_after_change [of okProgram scene1 renderer1 plane0 scene2]
  have "getValid (webglContextRestored renderer1) scene2 = getValid renderer1 scene2"
    by blast
  ultimately have 4: "\<not> getValid (rend reallocated2) scene2"
    using 3 by simp
  from v m 1 2 h 3 4 show ?thesis by blast
qed

subsection \<open>C6: the view and projection matrices\<close>



subsection \<open>C7: what a reload writes for each plane\<close>



subsection \<open>C8: attribute bindings\<close>



subsection \<open>C9: the frame context after a draw\<close>

text \<open>
  Claim C9: after every \<open>drawLayer\<close> call that issues a draw,
  \<open>frameContext.lastProgramId\<close> equals the renderer's program id, and
  \<open>frameContext.lastRTCCenter\<close> is value-equal to the drawn layer's RTC center, or null when
  the layer has none.

  After a completed draw the remembered id is the id of the renderer's program, and the
  remembered center is the layer's center or one the comparison helper accepts as equal to
  it, and null for a layer without center. When the helper is the exact component-wise
  comparison, the remembered center equals the layer's.
\<close>

theorem frame_context_after_draw:
  assumes "status (drawLayer rc np ts r fc bl) = Drawn"
  shows "let res = drawLayer rc np ts r fc bl in
           (\<exists>p. program (rend res) = Some p \<and> lastProgramId (fctx res) = Some (prog_id p))
         \<and> rtcAgrees rc (rtcCenter (state bl)) (lastRTCCenter (fctx res))
         \<and> ((\<forall>a b. compareVec3 rc a b = (a = b)) \<longrightarrow>
              lastRTCCenter (fctx res) = rtcCenter (state bl))"
proof -
  let ?res = "drawLayer rc np ts r fc bl"
  from assms(1) obtain p r' where r': "rend ?res = r'" "program r' = Some p"
    and eq: "?res = drawBody rc p r' fc bl"
    by (rule drawLayer_Drawn)
  have 1: "lastProgramId (fctx ?res) = Some (prog_id p)"
    by (subst eq) (rule drawBody_fctx)
  have 2: "rtcAgrees rc (rtcCenter (state bl)) (lastRTCCenter (fctx ?res))"
    by (subst eq) (rule drawBody_fctx)
  from 2 have 3: "lastRTCCenter (fctx ?res) = rtcCenter (state bl)"
    if "\<forall>a b. compareVec3 rc a b = (a = b)"
    using that by (simp add: rtcAgrees_exact)
  show ?thesis
    unfolding Let_def using r' 1 2 3 by simp
qed

theorem frame_context_after_draw_witness:
  "status (drawLayer rc0 okProgram scene1 renderer1 fc0 layer1) = Drawn
   \<and> (\<forall>a b. compareVec3 rc0 a b = (a = b))
   \<and> lastProgramId (fctx (drawLayer rc0 okProgram scene1 renderer1 fc0 layer1))
       = Some (prog_id okProgram)
   \<and> lastRTCCenter (fctx (drawLayer rc0 okProgram scene1 renderer1 fc0 layer1))
       = Some (5, 0, 0)"
proof -
  have e: "\<forall>a b. compareVec3 rc0 a b = (a = b)"
    by (simp add: rc0_def exactCompareVec3_eq)
  have v: "rtcCenter (state layer1) = Some (5, 0, 0)" by (simp add: example_defs)
  from frame_context_after_draw [OF example_Drawn(1)] e
  have "lastProgramId (fctx (drawLayer rc0 okProgram scene1 renderer1 fc0 layer1))
       = Some (prog_id okProgram)
   \<and> lastRTCCenter (fctx (drawLayer rc0 okProgram scene1 renderer1 fc0 layer1))
       = Some (5, 0, 0)"
    by (simp add: Let_def example_rend v)
  with example_Drawn(1) e show ?thesis by blast
qed

subsection \<open>C10: the scale of the orthographic projection\<close>

text \<open>
  What the scale setter stores, for every value it can receive: nothing when the
  comparison throws, otherwise 1.0 for \<open>undefined\<close> and \<open>null\<close>, 0.01 when
  \<open>value <= 0\<close> holds, and the value itself in every other case.
\<close>

lemma set_scale_stores:
  "map_option scale (set_scale cv v this) =
     (if v = Undefined \<or> v = Null then Some (Number (Num 1))
      else case js_le_zero cv v of
             None \<Rightarrow> None
           | Some le \<Rightarrow> Some (if le then Number (Num 0.01) else v))"
  by (simp add: set_scale_def Let_def split: option.splits)

text \<open>
  Claim C10: the scale setter maps \<open>undefined\<close> or \<open>null\<close> to the default 1.0 and any
  value \<open>\<le> 0\<close> to 0.01, so after every assignment the stored scale is strictly positive
  and the orthographic frustum is never degenerate.

  The code does not keep this, and not what its own documentation says either (the scale
  ``clamps to minimum value of 0.01''). The only guard is \<open>value <= 0\<close>. NaN is a number
  for which the comparison is false: it is stored as it is, and it is not positive. A
  number between 0 and 0.01, such as 0.005, is stored as it is too, below the documented
  minimum.
\<close>

theorem set_scale_not_clamped:
  "map_option scale (set_scale cv (Number NaN) ortho0) = Some (Number NaN)
   \<and> \<not> js_positive (Number NaN)
   \<and> map_option scale (set_scale cv (Number (Num 0.005)) ortho0) = Some (Number (Num 0.005))
   \<and> (0.005 :: real) < 0.01
   \<and> map_option scale (set_scale cv (Number (Num 0)) ortho0) = Some (Number (Num 0.01))
   \<and> map_option scale (set_scale cv Undefined ortho0) = Some (Number (Num 1))"
  by (simp add: set_scale_def Let_def ortho0_def)

end
